theory Spec2Isabelle
  imports Complex_Main "HOL-Library.Char_ord" "HOL-Library.List_Lexorder" "HOL-Library.Sublist"
begin

section \<open>Python values used by the pipeline\<close>

text \<open>
  Exceptions are values: the class that an \<^verbatim>\<open>except\<close> clause matches on, and the
  message that \<^verbatim>\<open>str(e)\<close> returns. Every class below derives from Python's
  \<^verbatim>\<open>Exception\<close>, so \<^verbatim>\<open>except Exception\<close> catches all of them; \<open>PyException\<close> is
  the plain class \<^verbatim>\<open>Exception\<close> itself and \<open>OtherError\<close> any library class, by name.
\<close>

datatype exn_class = PyException | RuntimeError | ValueError | AttributeError | OtherError string

datatype exn = Raise (class_of: exn_class) (str_exn: string)

text \<open>Strings are lists of 8-bit characters. \<open>nl\<close> is \<^verbatim>\<open>"\n"\<close>.\<close>

definition nl :: string where
  "nl = [CHR 0x0A]"

definition dquote :: string where
  "dquote = [CHR 0x22]"

definition squote :: string where
  "squote = [CHR 0x27]"

text \<open>\<^verbatim>\<open>sep.join(parts)\<close>\<close>

fun join :: "string \<Rightarrow> string list \<Rightarrow> string" where
  "join sep [] = []"
| "join sep [x] = x"
| "join sep (x # y # ys) = x @ sep @ join sep (y # ys)"

text \<open>
  \<^verbatim>\<open>str.isspace\<close> on one character with a code point below 256, and \<^verbatim>\<open>str.strip()\<close>.
\<close>

definition py_isspace :: "char \<Rightarrow> bool" where
  "py_isspace c = (c \<in> set [CHR 0x09, CHR 0x0A, CHR 0x0B, CHR 0x0C, CHR 0x0D,
                              CHR 0x1C, CHR 0x1D, CHR 0x1E, CHR 0x1F, CHR 0x20,
                              CHR 0x85, CHR 0xA0])"

definition strip :: "string \<Rightarrow> string" where
  "strip s = rev (dropWhile py_isspace (rev (dropWhile py_isspace s)))"

text \<open>\<^verbatim>\<open>str.lower()\<close> on ASCII letters; other characters are left as they are.\<close>

definition lower_char :: "char \<Rightarrow> char" where
  "lower_char c =
     (case map_of (zip ''ABCDEFGHIJKLMNOPQRSTUVWXYZ'' ''abcdefghijklmnopqrstuvwxyz'') c of
        None \<Rightarrow> c
      | Some l \<Rightarrow> l)"

definition lower :: "string \<Rightarrow> string" where
  "lower s = map lower_char s"

text \<open>\<^verbatim>\<open>sub in s\<close> for strings.\<close>

fun contains :: "string \<Rightarrow> string \<Rightarrow> bool" where
  "contains [] sub = (sub = [])"
| "contains (c # cs) sub = (take (length sub) (c # cs) = sub \<or> contains cs sub)"

text \<open>The decimal text of a natural number, as an f-string prints \<^verbatim>\<open>{i}\<close>.\<close>

fun str_nat :: "nat \<Rightarrow> string" where
  "str_nat n = (if n < 10 then [''0123456789'' ! n]
                else str_nat (n div 10) @ [''0123456789'' ! (n mod 10)])"

declare str_nat.simps [simp del]

text \<open>\<^verbatim>\<open>d.get(key, default)\<close> on a dictionary.\<close>

definition dict_get :: "('k \<rightharpoonup> 'v) \<Rightarrow> 'k \<Rightarrow> 'v \<Rightarrow> 'v" where
  "dict_get d k dflt = (case d k of None \<Rightarrow> dflt | Some v \<Rightarrow> v)"

subsection \<open>File paths\<close>

text \<open>
  \<^verbatim>\<open>Path(p).name\<close> and \<^verbatim>\<open>Path(p).suffix\<close> of pathlib, for POSIX paths: the name is
  the last component of the path (empty and \<^verbatim>\<open>.\<close> components are dropped); the suffix
  is the name from its last dot on, when that dot is neither the first nor the last
  character of the name, and empty otherwise.
\<close>

fun split_on :: "char \<Rightarrow> string \<Rightarrow> string list" where
  "split_on c [] = [[]]"
| "split_on c (x # xs) =
     (if x = c then [] # split_on c xs
      else (case split_on c xs of
              [] \<Rightarrow> [[x]]
            | p # ps \<Rightarrow> (x # p) # ps))"

definition path_name :: "string \<Rightarrow> string" where
  "path_name p =
     (case rev (filter (\<lambda>q. q \<noteq> [] \<and> q \<noteq> ''.'') (split_on CHR ''/'' p)) of
        [] \<Rightarrow> []
      | n # _ \<Rightarrow> n)"

definition rfind :: "char \<Rightarrow> string \<Rightarrow> nat option" where
  "rfind c s =
     (if c \<in> set s
      then Some (length s - 1 - length (takeWhile (\<lambda>x. x \<noteq> c) (rev s)))
      else None)"

definition path_suffix :: "string \<Rightarrow> string" where
  "path_suffix p =
     (let name = path_name p in
      case rfind CHR ''.'' name of
        None \<Rightarrow> []
      | Some i \<Rightarrow> if 0 < i \<and> i + 1 < length name then drop i name else [])"

section \<open>Data model\<close>

text \<open>
  A langchain \<^verbatim>\<open>Document\<close>: its text and its metadata dictionary. The two keys the
  pipeline reads and writes, \<^verbatim>\<open>source\<close> and \<^verbatim>\<open>file_type\<close>, hold strings.
  What a loader returns is a \<open>raw_document\<close>: the \<^verbatim>\<open>metadata\<close> attribute may be
  missing there (the source tests \<^verbatim>\<open>hasattr(doc, 'metadata')\<close>).
\<close>

type_synonym meta = "string \<rightharpoonup> string"

record raw_document =
  raw_content :: string
  raw_metadata :: "meta option"

record document =
  page_content :: string
  metadata :: meta

text \<open>What \<^verbatim>\<open>llm.invoke\<close> returns: an object with a \<^verbatim>\<open>content\<close> attribute, or any
  other object, given by its \<^verbatim>\<open>str()\<close>.\<close>

datatype response = Message string | Other string

type_synonym llm = "string \<Rightarrow> exn + response"

text \<open>
  Modelled from the spec: the vector store. The Chroma collection is a library object, not
  code of this repository; it is the list of the stored (identifier, chunk) pairs, and
  \<^verbatim>\<open>reset_collection\<close>, \<^verbatim>\<open>add_documents\<close> and \<^verbatim>\<open>count\<close> follow the Knowledge Store
  contract of the specification (reset empties the collection, insertion appends the
  chunks under their identifiers, count is the number of stored chunks).
\<close>

record store =
  collection :: "(string \<times> document) list"

text \<open>The two module globals \<^verbatim>\<open>llm\<close> and \<^verbatim>\<open>vector_store\<close>; \<open>None\<close> is Python's \<^verbatim>\<open>None\<close>.\<close>

record state =
  llm :: "llm option"
  vector_store :: "store option"

datatype loader = PyPDFLoader | CSVLoader | UnstructuredExcelLoader | Docx2txtLoader | TextLoader

text \<open>The configuration handed to \<^verbatim>\<open>RecursiveCharacterTextSplitter\<close>.\<close>

record splitter =
  separators :: "string list"
  chunk_size :: nat
  chunk_overlap :: nat

text \<open>
  The external collaborators, as the behaviour they show during one call:
  \<^item> \<open>ChatGroq\<close>: the outcome of constructing the language model client;
  \<^item> \<open>Chroma\<close>: the outcome of constructing the embeddings and the persistent store
    (with whatever collection was persisted);
  \<^item> \<open>load\<close>: constructing a loader on a path and calling \<^verbatim>\<open>load()\<close>;
  \<^item> \<open>split_documents\<close>: the text splitter of the given configuration;
  \<^item> \<open>uuid4\<close>: the text of the n-th fresh identifier;
  \<^item> \<open>reset_fault\<close>, \<open>count_fault\<close>: the exception the store raises on
    \<^verbatim>\<open>reset_collection()\<close>, on \<^verbatim>\<open>count()\<close>, if any;
  \<^item> \<open>add_fault\<close>: \<open>Some (n, e)\<close> when \<^verbatim>\<open>add_documents\<close> raises \<open>e\<close> after it has
    stored \<open>n\<close> chunks;
  \<^item> \<open>similarity_search_with_score\<close>: the scored nearest-neighbour query.
\<close>

record env =
  ChatGroq :: "exn + llm"
  Chroma :: "exn + store"
  load :: "loader \<Rightarrow> string \<Rightarrow> exn + raw_document list"
  split_documents :: "splitter \<Rightarrow> document list \<Rightarrow> document list"
  uuid4 :: "nat \<Rightarrow> string"
  reset_fault :: "exn option"
  add_fault :: "(nat \<times> exn) option"
  count_fault :: "exn option"
  similarity_search_with_score :: "store \<Rightarrow> string \<Rightarrow> nat \<Rightarrow> exn + (document \<times> real) list"

definition CHUNK_SIZE :: nat where
  "CHUNK_SIZE = 1000"

definition CHUNK_OVERLAP :: nat where
  "CHUNK_OVERLAP = 200"

section \<open>The store operations\<close>

text \<open>
  Modelled from the spec: the three operations of the library store that the pipeline
  calls, on the collection above. Each may raise what the environment says.
\<close>

definition reset_collection :: "env \<Rightarrow> store \<Rightarrow> exn + store" where
  "reset_collection env vs =
     (case reset_fault env of
        Some e \<Rightarrow> Inl e
      | None \<Rightarrow> Inr (vs\<lparr>collection := []\<rparr>))"

definition count :: "env \<Rightarrow> store \<Rightarrow> exn + nat" where
  "count env vs =
     (case count_fault env of
        Some e \<Rightarrow> Inl e
      | None \<Rightarrow> Inr (length (collection vs)))"

text \<open>\<^verbatim>\<open>add_documents\<close> returns the store as it is left, and the exception raised, if any.\<close>

definition add_documents :: "env \<Rightarrow> store \<Rightarrow> document list \<Rightarrow> string list \<Rightarrow> store \<times> exn option" where
  "add_documents env vs documents ids =
     (case add_fault env of
        None \<Rightarrow> (vs\<lparr>collection := collection vs @ zip ids documents\<rparr>, None)
      | Some (n, e) \<Rightarrow>
          (vs\<lparr>collection := collection vs @ take n (zip ids documents)\<rparr>, Some e))"

section \<open>rag.py: initialize_components\<close>

text \<open>
  Returns the globals as they are left, and the exception raised, if any: when the model
  client is constructed and the store then fails, \<^verbatim>\<open>llm\<close> stays set.
\<close>

definition initialize_components :: "env \<Rightarrow> state \<Rightarrow> state \<times> exn option" where
  "initialize_components env st =
     (case (if llm st = None
            then (case ChatGroq env of
                    Inl e \<Rightarrow> Inl e
                  | Inr m \<Rightarrow> Inr (st\<lparr>llm := Some m\<rparr>))
            else Inr st) of
        Inl e \<Rightarrow> (st, Some e)
      | Inr st1 \<Rightarrow>
          (if vector_store st1 = None
           then (case Chroma env of
                   Inl e \<Rightarrow> (st1, Some e)
                 | Inr vs \<Rightarrow> (st1\<lparr>vector_store := Some vs\<rparr>, None))
           else (st1, None)))"

section \<open>rag.py: load_document\<close>

text \<open>The loop that writes the file name and the extension into every document.\<close>

definition stamp :: "string \<Rightarrow> string \<Rightarrow> raw_document \<Rightarrow> document" where
  "stamp name extension doc =
     (let m = (case raw_metadata doc of None \<Rightarrow> Map.empty | Some m \<Rightarrow> m) in
      \<lparr>page_content = raw_content doc,
       metadata = m(''source'' \<mapsto> name, ''file_type'' \<mapsto> extension)\<rparr>)"

text \<open>
  Everything is inside one \<^verbatim>\<open>try\<close>: the \<^verbatim>\<open>ValueError\<close> of the last branch is caught by
  the function's own \<^verbatim>\<open>except Exception\<close>, like a failure of the loader, and raised
  again as a plain \<^verbatim>\<open>Exception\<close> with the message \<^verbatim>\<open>Error loading {name}: {str(e)}\<close>.
\<close>

definition load_document :: "env \<Rightarrow> string \<Rightarrow> exn + document list" where
  "load_document env file_path =
     (let name = path_name file_path;
          extension = lower (path_suffix file_path);
          loaded =
            (if extension = ''.pdf'' then load env PyPDFLoader file_path
             else if extension = ''.csv'' then load env CSVLoader file_path
             else if extension = ''.xlsx'' then load env UnstructuredExcelLoader file_path
             else if extension = ''.docx'' then load env Docx2txtLoader file_path
             else if extension = ''.txt'' then load env TextLoader file_path
             else Inl (Raise ValueError (''Unsupported file type: '' @ extension)))
      in case loaded of
           Inr documents \<Rightarrow> Inr (map (stamp name extension) documents)
         | Inl e \<Rightarrow> Inl (Raise PyException (''Error loading '' @ name @ '': '' @ str_exn e)))"

section \<open>rag.py: process_documents\<close>

text \<open>
  The generator yields progress messages. Each message is a constructor here, with the
  values its f-string prints:
  \<^item> \<open>Initializing\<close>: \<^verbatim>\<open>Initializing AI components...\<close>
  \<^item> \<open>Clearing\<close>: \<^verbatim>\<open>Clearing previous knowledge base...\<close>
  \<^item> \<open>Loading n\<close>: \<^verbatim>\<open>Loading {n} document(s)...\<close>
  \<^item> \<open>Loaded name n\<close>: (check mark) \<^verbatim>\<open>Loaded {name} ({n} sections)\<close>
  \<^item> \<open>FailedToLoad name msg\<close>: (cross) \<^verbatim>\<open>Failed to load {name}: {msg}\<close>
  \<^item> \<open>NoDocumentsLoaded\<close>: (cross) \<^verbatim>\<open>No documents loaded successfully\<close>
  \<^item> \<open>TotalContent n\<close>: (check mark) \<^verbatim>\<open>Total content loaded: {n:,} characters\<close>
  \<^item> \<open>Splitting\<close>: \<^verbatim>\<open>Splitting documents into semantic chunks...\<close>
  \<^item> \<open>FailedToChunk\<close>: (cross) \<^verbatim>\<open>Failed to create text chunks\<close>
  \<^item> \<open>Created n\<close>: (check mark) \<^verbatim>\<open>Created {n} chunks\<close>
  \<^item> \<open>Storing\<close>: \<^verbatim>\<open>Generating embeddings and storing in vector database...\<close>
  \<^item> \<open>Success n\<close>: (check mark) \<^verbatim>\<open>SUCCESS! Knowledge base ready with {n} chunks\<close>
  \<^item> \<open>StorageError msg\<close>: (cross) \<^verbatim>\<open>Storage error: {msg}\<close>
\<close>

datatype status =
    Initializing
  | Clearing
  | Loading nat
  | Loaded string nat
  | FailedToLoad string string
  | NoDocumentsLoaded
  | TotalContent nat
  | Splitting
  | FailedToChunk
  | Created nat
  | Storing
  | Success nat
  | StorageError string

text \<open>
  One run of the generator to its end: the messages yielded in order, the globals as they
  are left, and the exception that ended the run, if one did (\<open>None\<close>: the generator
  returned).
\<close>

record outcome =
  emitted :: "status list"
  final :: state
  raised :: "exn option"

text \<open>
  The loop over \<^verbatim>\<open>file_paths\<close>, with \<^verbatim>\<open>all_documents\<close> and the messages yielded so far
  as accumulators. The \<^verbatim>\<open>except\<close> branch yields the failure message and continues.
\<close>

fun load_files :: "env \<Rightarrow> string list \<Rightarrow> document list \<Rightarrow> status list \<Rightarrow> status list \<times> document list" where
  "load_files env [] all_documents msgs = (msgs, all_documents)"
| "load_files env (file_path # file_paths) all_documents msgs =
     (case load_document env file_path of
        Inr docs \<Rightarrow>
          load_files env file_paths (all_documents @ docs)
            (msgs @ [Loaded (path_name file_path) (length docs)])
      | Inl e \<Rightarrow>
          load_files env file_paths all_documents
            (msgs @ [FailedToLoad (path_name file_path) (str_exn e)]))"

definition the_splitter :: splitter where
  "the_splitter =
     \<lparr>separators = [nl @ nl, nl, ''. '', ''! '', ''? '', ''; '', '', '', '' ''],
      chunk_size = CHUNK_SIZE,
      chunk_overlap = CHUNK_OVERLAP\<rparr>"

definition process_documents :: "env \<Rightarrow> state \<Rightarrow> string list \<Rightarrow> outcome" where
  "process_documents env st file_paths =
     (case initialize_components env st of
        (st1, Some e) \<Rightarrow> \<lparr>emitted = [Initializing], final = st1, raised = Some e\<rparr>
      | (st1, None) \<Rightarrow>
          (case vector_store st1 of
             None \<Rightarrow>
               \<lparr>emitted = [Initializing, Clearing], final = st1,
                raised = Some (Raise AttributeError
                  (squote @ ''NoneType'' @ squote @ '' object has no attribute ''
                     @ squote @ ''reset_collection'' @ squote))\<rparr>
           | Some vs \<Rightarrow>
               (case reset_collection env vs of
                  Inl e \<Rightarrow> \<lparr>emitted = [Initializing, Clearing], final = st1, raised = Some e\<rparr>
                | Inr vs1 \<Rightarrow>
                    (let st2 = st1\<lparr>vector_store := Some vs1\<rparr>;
                         (msgs, all_documents) =
                           load_files env file_paths []
                             [Initializing, Clearing, Loading (length file_paths)]
                     in if all_documents = []
                        then \<lparr>emitted = msgs @ [NoDocumentsLoaded], final = st2, raised = None\<rparr>
                        else
                          (let total_chars = sum_list (map (\<lambda>doc. length (page_content doc)) all_documents);
                               msgs1 = msgs @ [TotalContent total_chars, Splitting];
                               chunks = split_documents env the_splitter all_documents
                           in if chunks = []
                              then \<lparr>emitted = msgs1 @ [FailedToChunk], final = st2, raised = None\<rparr>
                              else
                                (let msgs2 = msgs1 @ [Created (length chunks), Storing];
                                     ids = map (uuid4 env) [0..<length chunks];
                                     (vs2, err) = add_documents env vs1 chunks ids;
                                     st3 = st2\<lparr>vector_store := Some vs2\<rparr>
                                 in case err of
                                      Some e \<Rightarrow>
                                        \<lparr>emitted = msgs2 @ [StorageError (str_exn e)],
                                         final = st3, raised = None\<rparr>
                                    | None \<Rightarrow>
                                        (case count env vs2 of
                                           Inl e \<Rightarrow>
                                             \<lparr>emitted = msgs2 @ [StorageError (str_exn e)],
                                              final = st3, raised = None\<rparr>
                                         | Inr n \<Rightarrow>
                                             \<lparr>emitted = msgs2 @ [Success n],
                                              final = st3, raised = None\<rparr>)))))))"

section \<open>rag.py: generate_answer\<close>

text \<open>
  The \<^verbatim>\<open>print\<close> calls that write debugging lines to the standard output are left out:
  they change neither the result nor the globals.
  Distances are floats compared with the constant 2.5; they are reals here.
  The list comprehension of the relevance filter and its fallback to the first four hits.
\<close>

definition relevant_docs_of :: "(document \<times> real) list \<Rightarrow> document list" where
  "relevant_docs_of docs_with_scores =
     (let relevant_docs = [doc. (doc, score) \<leftarrow> docs_with_scores, score < 2.5] in
      if relevant_docs = [] then [doc. (doc, _) \<leftarrow> take 4 docs_with_scores]
      else relevant_docs)"

text \<open>
  The loop over \<^verbatim>\<open>enumerate(relevant_docs[:5], 1)\<close>, with \<^verbatim>\<open>context_parts\<close> and the
  set \<^verbatim>\<open>sources\<close> as accumulators.
\<close>

fun build_context :: "nat \<Rightarrow> document list \<Rightarrow> string list \<Rightarrow> string set \<Rightarrow> string list \<times> string set" where
  "build_context i [] context_parts srcs = (context_parts, srcs)"
| "build_context i (doc # docs) context_parts srcs =
     (let source_name = dict_get (metadata doc) ''source'' ''Unknown'';
          file_type = dict_get (metadata doc) ''file_type'' [] in
      build_context (Suc i) docs
        (context_parts @
           [''[Document '' @ str_nat i @ '': '' @ source_name @ '']'' @ nl @ page_content doc @ nl])
        (insert (if file_type \<noteq> [] then source_name @ '' ('' @ file_type @ '')'' else source_name)
           srcs))"

definition make_prompt :: "string \<Rightarrow> string \<Rightarrow> string" where
  "make_prompt context query =
     ''You are an intelligent document assistant. Answer the question using ONLY the information from the provided documents.''
     @ nl @ nl @ ''DOCUMENTS:'' @ nl @ context @ nl @ nl
     @ ''QUESTION: '' @ query @ nl @ nl
     @ ''INSTRUCTIONS:'' @ nl
     @ ''- Provide a clear, detailed answer based solely on the document content'' @ nl
     @ ''- If the documents contain the information, give a comprehensive response'' @ nl
     @ ''- Include specific details, numbers, or facts from the documents when relevant'' @ nl
     @ ''- If the information is not in the documents, clearly state: '' @ dquote
     @ ''This information is not available in the uploaded documents'' @ dquote @ nl
     @ ''- Do not make assumptions or add information not present in the documents'' @ nl
     @ ''- If multiple documents discuss the topic, synthesize the information'' @ nl @ nl
     @ ''ANSWER:''"

text \<open>
  The last \<^verbatim>\<open>try\<close> block: the model call, the answer text and the formatted sources.
  With \<^verbatim>\<open>llm\<close> still \<^verbatim>\<open>None\<close>, \<^verbatim>\<open>llm.invoke\<close> raises an \<^verbatim>\<open>AttributeError\<close> inside
  the block.
\<close>

definition invoke_llm :: "state \<Rightarrow> string \<Rightarrow> exn + response" where
  "invoke_llm st prompt =
     (case llm st of
        None \<Rightarrow> Inl (Raise AttributeError
          (squote @ ''NoneType'' @ squote @ '' object has no attribute '' @ squote @ ''invoke'' @ squote))
      | Some m \<Rightarrow> m prompt)"

definition answer_from :: "state \<Rightarrow> string \<Rightarrow> document list \<Rightarrow> string \<times> string" where
  "answer_from st query context_docs =
     (let (context_parts, srcs) = build_context 1 context_docs [] {};
          context = join nl context_parts;
          prompt = make_prompt context query
      in case invoke_llm st prompt of
           Inl e \<Rightarrow> (''Error generating answer: '' @ str_exn e, [])
         | Inr resp \<Rightarrow>
             (let answer = (case resp of Message c \<Rightarrow> c | Other s \<Rightarrow> s);
                  formatted_sources = join nl [''- '' @ src. src \<leftarrow> sorted_list_of_set srcs]
              in (strip answer, formatted_sources)))"

definition generate_answer :: "env \<Rightarrow> state \<Rightarrow> string \<Rightarrow> exn + (string \<times> string)" where
  "generate_answer env st query =
     (case vector_store st of
        None \<Rightarrow> Inl (Raise RuntimeError ''Knowledge base not initialized. Upload documents first.'')
      | Some vs \<Rightarrow>
          (if count env vs = Inr 0
           then Inr (''Knowledge base is empty. Please upload documents first.'', [])
           else
             (case similarity_search_with_score env vs query 6 of
                Inl e \<Rightarrow> Inr (''Error searching knowledge base: '' @ str_exn e, [])
              | Inr docs_with_scores \<Rightarrow>
                  (if docs_with_scores = []
                   then Inr (''No relevant information found for your query. Try rephrasing or upload more documents.'', [])
                   else Inr (answer_from st query (take 5 (relevant_docs_of docs_with_scores)))))))"

section \<open>api.py: query_documents\<close>

datatype http_exception = HTTPException nat string

record query_response =
  answer :: string
  sources :: string
  confidence :: "string option"

text \<open>
  The handler of \<^verbatim>\<open>POST /v1/query\<close>: a \<^verbatim>\<open>RuntimeError\<close> of \<^verbatim>\<open>generate_answer\<close>
  becomes the status 400 with the error's message, any other exception the status 500.
\<close>

definition query_documents :: "env \<Rightarrow> state \<Rightarrow> string \<Rightarrow> http_exception + query_response" where
  "query_documents env st query =
     (if query = [] \<or> strip query = []
      then Inl (HTTPException 400 ''Query cannot be empty'')
      else
        (case generate_answer env st query of
           Inr (a, s) \<Rightarrow>
             Inr \<lparr>answer = a, sources = s,
                  confidence = Some (if s \<noteq> [] \<and> \<not> contains s ''No sources''
                                     then ''high'' else ''low'')\<rparr>
         | Inl e \<Rightarrow>
             (if class_of e = RuntimeError
              then Inl (HTTPException 400 (str_exn e))
              else Inl (HTTPException 500 (''Query error: '' @ str_exn e)))))"

section \<open>The properties, in the words of the specification\<close>

text \<open>
  The context set as the specification states it: the hits with a distance below 2.5, or
  the first four hits when there is none, cut to the first five.
\<close>

definition select_context :: "(document \<times> real) list \<Rightarrow> document list" where
  "select_context hits =
     take 5 (map fst (if \<exists>h \<in> set hits. snd h < 2.5
                      then filter (\<lambda>h. snd h < 2.5) hits
                      else take 4 hits))"

text \<open>The source label of one context chunk, as the specification states it.\<close>

definition source_label :: "document \<Rightarrow> string" where
  "source_label doc =
     (let source = dict_get (metadata doc) ''source'' ''Unknown'' in
      case metadata doc ''file_type'' of
        None \<Rightarrow> source
      | Some file_type \<Rightarrow>
          if file_type = [] then source else source @ '' ('' @ file_type @ '')'')"

text \<open>The prompt that \<^verbatim>\<open>generate_answer\<close> builds from a context set.\<close>

definition prompt_of :: "string \<Rightarrow> document list \<Rightarrow> string" where
  "prompt_of query context_docs =
     make_prompt (join nl (fst (build_context 1 context_docs [] {}))) query"

text \<open>The progress message of one file, and the documents of the files that loaded.\<close>

definition file_status :: "env \<Rightarrow> string \<Rightarrow> status" where
  "file_status env file_path =
     (case load_document env file_path of
        Inr docs \<Rightarrow> Loaded (path_name file_path) (length docs)
      | Inl e \<Rightarrow> FailedToLoad (path_name file_path) (str_exn e))"

definition loaded_documents :: "env \<Rightarrow> string list \<Rightarrow> document list" where
  "loaded_documents env file_paths =
     concat (map (\<lambda>file_path. case load_document env file_path of
                                 Inr docs \<Rightarrow> docs
                               | Inl e \<Rightarrow> []) file_paths)"

definition supported_extensions :: "string list" where
  "supported_extensions = [''.pdf'', ''.csv'', ''.xlsx'', ''.docx'', ''.txt'']"

section \<open>Concrete inputs\<close>

definition mk_doc :: "string \<Rightarrow> string \<Rightarrow> string \<Rightarrow> document" where
  "mk_doc text src ft = \<lparr>page_content = text, metadata = [''source'' \<mapsto> src, ''file_type'' \<mapsto> ft]\<rparr>"

definition six_hits :: "(document \<times> real) list" where
  "six_hits =
     [(mk_doc ''one'' ''a.txt'' ''.txt'', 0.3),
      (mk_doc ''two'' ''b.pdf'' ''.pdf'', 0.7),
      (mk_doc ''three'' ''a.txt'' ''.txt'', 2.5),
      (mk_doc ''four'' ''c.csv'' ''.csv'', 1.1),
      (mk_doc ''five'' ''b.pdf'' ''.pdf'', 1.9),
      (mk_doc ''six'' ''d.docx'' ''.docx'', 2.4)]"

definition far_hits :: "(document \<times> real) list" where
  "far_hits =
     [(mk_doc ''one'' ''a.txt'' ''.txt'', 2.5),
      (mk_doc ''two'' ''b.pdf'' ''.pdf'', 2.75),
      (mk_doc ''three'' ''a.txt'' ''.txt'', 3),
      (mk_doc ''four'' ''c.csv'' ''.csv'', 3.5),
      (mk_doc ''five'' ''b.pdf'' ''.pdf'', 4),
      (mk_doc ''six'' ''d.docx'' ''.docx'', 9)]"

definition two_hits :: "(document \<times> real) list" where
  "two_hits =
     [(mk_doc ''intro'' ''report.pdf'' ''.pdf'', 0.5),
      (\<lparr>page_content = ''note'', metadata = [''source'' \<mapsto> ''memo'']\<rparr>, 0.75),
      (mk_doc ''summary'' ''report.pdf'' ''.pdf'', 1)]"

definition echo_llm :: llm where
  "echo_llm prompt = Inr (Message ''  The answer.  '')"

definition down_llm :: llm where
  "down_llm prompt = Inl (Raise (OtherError ''APIConnectionError'') ''Connection error.'')"

definition old_store :: store where
  "old_store = \<lparr>collection = [(''id-old'', mk_doc ''old chunk'' ''old.txt'' ''.txt'')]\<rparr>"

text \<open>
  A text loader that fails on \<^verbatim>\<open>broken.txt\<close> and returns one section otherwise, with
  metadata of its own under the key \<^verbatim>\<open>source\<close>; the PDF loader returns two pages, one of
  them without metadata.
\<close>

definition demo_load :: "loader \<Rightarrow> string \<Rightarrow> exn + raw_document list" where
  "demo_load k p =
     (case k of
        TextLoader \<Rightarrow>
          (if path_name p = ''broken.txt''
           then Inl (Raise (OtherError ''UnicodeDecodeError'') ''cannot decode'')
           else Inr [\<lparr>raw_content = ''hello world'',
                      raw_metadata = Some [''source'' \<mapsto> p, ''file_type'' \<mapsto> ''text'']\<rparr>])
      | PyPDFLoader \<Rightarrow>
          Inr [\<lparr>raw_content = ''page one'', raw_metadata = Some [''source'' \<mapsto> p, ''page'' \<mapsto> ''0'']\<rparr>,
               \<lparr>raw_content = ''page two'', raw_metadata = None\<rparr>]
      | _ \<Rightarrow> Inl (Raise (OtherError ''FileNotFoundError'') ''no such file''))"

definition demo_env :: env where
  "demo_env =
     \<lparr>ChatGroq = Inr echo_llm,
      Chroma = Inr old_store,
      load = demo_load,
      split_documents = (\<lambda>cfg docs. docs),
      uuid4 = (\<lambda>n. ''id-'' @ str_nat n),
      reset_fault = None,
      add_fault = None,
      count_fault = None,
      similarity_search_with_score = (\<lambda>vs q k. Inr (take k six_hits))\<rparr>"

definition ready :: state where
  "ready = \<lparr>llm = Some echo_llm, vector_store = Some old_store\<rparr>"

definition fresh :: state where
  "fresh = \<lparr>llm = None, vector_store = None\<rparr>"

definition far_env :: env where
  "far_env = demo_env\<lparr>similarity_search_with_score := (\<lambda>vs q k. Inr (take k far_hits))\<rparr>"

definition two_env :: env where
  "two_env = demo_env\<lparr>similarity_search_with_score := (\<lambda>vs q k. Inr (take k two_hits))\<rparr>"

definition search_down_env :: env where
  "search_down_env =
     demo_env\<lparr>similarity_search_with_score :=
       (\<lambda>vs q k. Inl (Raise RuntimeError ''index unavailable''))\<rparr>"

definition outage :: state where
  "outage = ready\<lparr>llm := Some down_llm\<rparr>"

definition emptied :: state where
  "emptied = \<lparr>llm = Some echo_llm, vector_store = Some \<lparr>collection = []\<rparr>\<rparr>"

text \<open>A text loader whose failure message reads like the message for an unsupported type.\<close>

definition mimic_env :: env where
  "mimic_env =
     demo_env\<lparr>load := (\<lambda>k p. Inl (Raise ValueError ''y.zip: Unsupported file type: .zip''))\<rparr>"

section \<open>Auxiliary facts\<close>

subsection \<open>The loops\<close>

lemma load_files_eq:
  "load_files env fps all_docs msgs =
     (msgs @ map (file_status env) fps, all_docs @ loaded_documents env fps)"
  by (induction fps arbitrary: all_docs msgs)
     (simp_all add: file_status_def loaded_documents_def split: sum.splits)

lemma isl_loaded_documents:
  "\<forall>fp \<in> set fps. isl (load_document env fp) \<Longrightarrow> loaded_documents env fps = []"
  by (induction fps) (auto simp: loaded_documents_def split: sum.splits)

lemma label_eq:
  "(let source_name = dict_get (metadata doc) ''source'' ''Unknown'';
        file_type = dict_get (metadata doc) ''file_type'' [] in
    (if file_type \<noteq> [] then source_name @ '' ('' @ file_type @ '')'' else source_name))
   = source_label doc"
  by (simp add: source_label_def dict_get_def Let_def split: option.splits)

lemma build_context_sources:
  "snd (build_context i docs parts srcs) = srcs \<union> source_label ` set docs"
proof (induction docs arbitrary: i parts srcs)
  case Nil
  then show ?case by simp
next
  case (Cons d ds)
  show ?case
    using label_eq [of d] by (simp add: Let_def Cons.IH)
qed

subsection \<open>The relevance filter\<close>

lemma comprehension_filter:
  "[doc. (doc, score) \<leftarrow> hits, score < (2.5 :: real)] = map fst (filter (\<lambda>h. snd h < 2.5) hits)"
  by (induction hits) auto

lemma comprehension_fst: "[doc. (doc, _) \<leftarrow> hits] = map fst hits"
  by (induction hits) auto

lemma relevant_docs_select: "take 5 (relevant_docs_of hits) = select_context hits"
proof (cases "\<exists>h \<in> set hits. snd h < 2.5")
  case True
  then have "filter (\<lambda>h. snd h < 2.5) hits \<noteq> []"
    by (simp add: filter_empty_conv)
  with True show ?thesis
    by (simp only: relevant_docs_of_def select_context_def comprehension_filter Let_def)
       simp
next
  case False
  then have "filter (\<lambda>h. snd h < 2.5) hits = []"
    by (simp add: filter_empty_conv)
  with False show ?thesis
    by (simp only: relevant_docs_of_def select_context_def comprehension_filter
          comprehension_fst Let_def)
       simp
qed

lemma subseq_take_left: "subseq (take n xs) xs"
proof -
  have "subseq (take n xs) (take n xs @ drop n xs)"
    by (rule list_emb_prefix) simp
  then show ?thesis by simp
qed

lemma select_context_subseq: "subseq (select_context hits) (map fst hits)"
proof -
  let ?sel = "if \<exists>h \<in> set hits. snd h < 2.5 then filter (\<lambda>h. snd h < 2.5) hits else take 4 hits"
  have "subseq ?sel hits"
    by (simp add: subseq_take_left)
  then have "subseq (map fst ?sel) (map fst hits)"
    by (rule subseq_map)
  moreover have "subseq (take 5 (map fst ?sel)) (map fst ?sel)"
    by (rule subseq_take_left)
  ultimately have "subseq (take 5 (map fst ?sel)) (map fst hits)"
    by (rule subseq_order.trans [rotated])
  then show ?thesis
    by (simp only: select_context_def)
qed

subsection \<open>The paths through generate_answer\<close>

lemma generate_answer_flow:
  assumes "vector_store st = Some vs" and "count env vs \<noteq> Inr 0"
    and "similarity_search_with_score env vs query 6 = Inr hits" and "hits \<noteq> []"
  shows "generate_answer env st query = Inr (answer_from st query (take 5 (relevant_docs_of hits)))"
  using assms by (simp add: generate_answer_def)

lemma answer_from_ok:
  assumes "invoke_llm st (prompt_of query ctx) = Inr resp"
  shows "answer_from st query ctx =
           (strip (case resp of Message c \<Rightarrow> c | Other s \<Rightarrow> s),
            join nl (map (\<lambda>l. ''- '' @ l) (sorted_list_of_set (source_label ` set ctx))))"
proof -
  obtain parts srcs where bc: "build_context 1 ctx [] {} = (parts, srcs)"
    by (cases "build_context 1 ctx [] {}")
  then have srcs: "srcs = source_label ` set ctx"
    using build_context_sources [of 1 ctx "[]" "{}"] by simp
  from assms bc have inv: "invoke_llm st (make_prompt (join nl parts) query) = Inr resp"
    by (simp add: prompt_of_def)
  show ?thesis
    unfolding answer_from_def bc
    by (simp only: prod.case Let_def inv sum.case srcs)
qed

lemma generate_answer_uninitialized:
  "vector_store st = None \<Longrightarrow>
     generate_answer env st query =
       Inl (Raise RuntimeError ''Knowledge base not initialized. Upload documents first.'')"
  by (simp add: generate_answer_def)

lemma generate_answer_initialized:
  "vector_store st = Some vs \<Longrightarrow> \<exists>a s. generate_answer env st query = Inr (a, s)"
  by (cases "similarity_search_with_score env vs query 6")
     (auto simp: generate_answer_def intro: prod.exhaust)

subsection \<open>The path through process_documents after a successful reset\<close>

lemma process_documents_unfold:
  assumes "initialize_components env st = (st1, None)"
    and "vector_store st1 = Some vs" and "reset_collection env vs = Inr vs1"
  shows "process_documents env st fps =
     (let st2 = st1\<lparr>vector_store := Some vs1\<rparr>;
          msgs = [Initializing, Clearing, Loading (length fps)] @ map (file_status env) fps;
          all_documents = loaded_documents env fps
      in if all_documents = []
         then \<lparr>emitted = msgs @ [NoDocumentsLoaded], final = st2, raised = None\<rparr>
         else
           (let msgs1 = msgs @ [TotalContent (sum_list (map (\<lambda>doc. length (page_content doc)) all_documents)), Splitting];
                chunks = split_documents env the_splitter all_documents
            in if chunks = []
               then \<lparr>emitted = msgs1 @ [FailedToChunk], final = st2, raised = None\<rparr>
               else
                 (let msgs2 = msgs1 @ [Created (length chunks), Storing];
                      added = add_documents env vs1 chunks (map (uuid4 env) [0..<length chunks]);
                      st3 = st2\<lparr>vector_store := Some (fst added)\<rparr>
                  in \<lparr>emitted = msgs2 @
                         [case snd added of
                            Some e \<Rightarrow> StorageError (str_exn e)
                          | None \<Rightarrow> (case count env (fst added) of
                                       Inl e \<Rightarrow> StorageError (str_exn e)
                                     | Inr n \<Rightarrow> Success n)],
                      final = st3, raised = None\<rparr>)))"
  using assms
  by (simp add: process_documents_def load_files_eq Let_def case_prod_unfold
        split: option.splits sum.splits)

lemma take_three_more:
  "length xs = n \<Longrightarrow> take (3 + n) (a # b # c # xs @ ys) = a # b # c # xs"
  by (simp add: numeral_3_eq_3)

subsection \<open>The concrete inputs, evaluated\<close>

lemmas path_simps = path_name_def path_suffix_def rfind_def lower_def lower_char_def

lemma load_notes_md:
  "load_document demo_env ''notes.md'' =
     Inl (Raise PyException ''Error loading notes.md: Unsupported file type: .md'')"
  by (simp add: load_document_def path_simps)

lemma load_broken_txt:
  "load_document demo_env ''broken.txt'' =
     Inl (Raise PyException ''Error loading broken.txt: cannot decode'')"
  by (simp add: load_document_def path_simps demo_env_def demo_load_def)

lemma load_a_txt:
  "load_document demo_env ''a.txt'' =
     Inr [\<lparr>page_content = ''hello world'',
           metadata = [''source'' \<mapsto> ''a.txt'', ''file_type'' \<mapsto> ''.txt'']\<rparr>]"
  by (simp add: load_document_def path_simps demo_env_def demo_load_def stamp_def fun_eq_iff)

lemma load_b_pdf:
  "load_document demo_env ''b.pdf'' =
     Inr [\<lparr>page_content = ''page one'',
           metadata = [''source'' \<mapsto> ''b.pdf'', ''page'' \<mapsto> ''0'', ''file_type'' \<mapsto> ''.pdf'']\<rparr>,
          \<lparr>page_content = ''page two'',
           metadata = [''source'' \<mapsto> ''b.pdf'', ''file_type'' \<mapsto> ''.pdf'']\<rparr>]"
  by (auto simp: load_document_def Let_def path_simps demo_env_def demo_load_def stamp_def fun_eq_iff)

lemma init_fresh: "initialize_components demo_env fresh = (ready, None)"
  by (simp add: initialize_components_def demo_env_def fresh_def ready_def)

lemma init_ready: "initialize_components demo_env ready = (ready, None)"
  by (simp add: initialize_components_def ready_def)

lemma store_ready: "vector_store ready = Some old_store"
  by (simp add: ready_def)

lemma reset_old: "reset_collection demo_env old_store = Inr \<lparr>collection = []\<rparr>"
  by (simp add: reset_collection_def demo_env_def old_store_def)

section \<open>Retrieval: the context set\<close>

text \<open>
  Claim C1. When the similarity query returns a non-empty list of hits, the context chunks
  that \<^verbatim>\<open>generate_answer\<close> builds its answer from are exactly the hits with a
  distance strictly below 2.5, or the first four hits when no hit is below 2.5, cut to the
  first five; they keep the rank order of the hits (they are a subsequence of them).
\<close>

theorem C1_context_selection:
  assumes "vector_store st = Some vs" and "count env vs \<noteq> Inr 0"
    and "similarity_search_with_score env vs query 6 = Inr hits" and "hits \<noteq> []"
  shows "generate_answer env st query = Inr (answer_from st query (select_context hits))
         \<and> subseq (select_context hits) (map fst hits)
         \<and> length (select_context hits) \<le> 5"
proof -
  have "generate_answer env st query = Inr (answer_from st query (select_context hits))"
    using generate_answer_flow [OF assms] by (simp only: relevant_docs_select)
  moreover have "length (select_context hits) \<le> 5"
    by (simp add: select_context_def)
  ultimately show ?thesis
    using select_context_subseq by blast
qed

theorem C1_context_selection_witness:
  "vector_store ready = Some old_store
   \<and> count demo_env old_store \<noteq> Inr 0
   \<and> similarity_search_with_score demo_env old_store ''what?'' 6 = Inr six_hits
   \<and> six_hits \<noteq> []
   \<and> generate_answer demo_env ready ''what?'' =
       Inr (answer_from ready ''what?''
              [mk_doc ''one'' ''a.txt'' ''.txt'', mk_doc ''two'' ''b.pdf'' ''.pdf'',
               mk_doc ''four'' ''c.csv'' ''.csv'', mk_doc ''five'' ''b.pdf'' ''.pdf'',
               mk_doc ''six'' ''d.docx'' ''.docx''])
   \<and> generate_answer far_env ready ''what?'' =
       Inr (answer_from ready ''what?''
              [mk_doc ''one'' ''a.txt'' ''.txt'', mk_doc ''two'' ''b.pdf'' ''.pdf'',
               mk_doc ''three'' ''a.txt'' ''.txt'', mk_doc ''four'' ''c.csv'' ''.csv''])"
proof -
  have st: "vector_store ready = Some old_store"
    by (simp add: ready_def)
  have c1: "count demo_env old_store \<noteq> Inr 0" and c2: "count far_env old_store \<noteq> Inr 0"
    by (simp_all add: count_def demo_env_def far_env_def old_store_def)
  have s1: "similarity_search_with_score demo_env old_store ''what?'' 6 = Inr six_hits"
    by (simp add: demo_env_def six_hits_def)
  have s2: "similarity_search_with_score far_env old_store ''what?'' 6 = Inr far_hits"
    by (simp add: far_env_def demo_env_def far_hits_def)
  have n1: "six_hits \<noteq> []" and n2: "far_hits \<noteq> []"
    by (simp_all add: six_hits_def far_hits_def)
  have sel1: "select_context six_hits =
      [mk_doc ''one'' ''a.txt'' ''.txt'', mk_doc ''two'' ''b.pdf'' ''.pdf'',
       mk_doc ''four'' ''c.csv'' ''.csv'', mk_doc ''five'' ''b.pdf'' ''.pdf'',
       mk_doc ''six'' ''d.docx'' ''.docx'']"
    by (simp add: select_context_def six_hits_def)
  have sel2: "select_context far_hits =
      [mk_doc ''one'' ''a.txt'' ''.txt'', mk_doc ''two'' ''b.pdf'' ''.pdf'',
       mk_doc ''three'' ''a.txt'' ''.txt'', mk_doc ''four'' ''c.csv'' ''.csv'']"
    by (simp add: select_context_def far_hits_def)
  from C1_context_selection [OF st c1 s1 n1] C1_context_selection [OF st c2 s2 n2]
  show ?thesis
    using st c1 s1 n1 by (simp only: sel1 sel2 simp_thms)
qed

section \<open>Loading: unsupported extensions\<close>

text \<open>
  Claim C2 does not hold as stated: the \<^verbatim>\<open>ValueError\<close> for an unsupported
  extension is raised inside the \<^verbatim>\<open>try\<close> block and leaves \<^verbatim>\<open>load_document\<close> as a
  plain \<^verbatim>\<open>Exception\<close>, the class that a failing loader is reported with. The two
  failures below have the same class, and with a suitable file name and loader message
  they are the same exception value.
\<close>

theorem C2_counterexample:
  "lower (path_suffix ''notes.md'') \<notin> set supported_extensions
   \<and> lower (path_suffix ''broken.txt'') \<in> set supported_extensions
   \<and> load_document demo_env ''notes.md'' =
       Inl (Raise PyException ''Error loading notes.md: Unsupported file type: .md'')
   \<and> load_document demo_env ''broken.txt'' =
       Inl (Raise PyException ''Error loading broken.txt: cannot decode'')
   \<and> lower (path_suffix ''x.txt: y.zip'') \<notin> set supported_extensions
   \<and> lower (path_suffix ''x.txt'') \<in> set supported_extensions
   \<and> load_document mimic_env ''x.txt: y.zip'' = load_document mimic_env ''x.txt''"
proof -
  have "load_document mimic_env ''x.txt: y.zip'' =
          Inl (Raise PyException ''Error loading x.txt: y.zip: Unsupported file type: .zip'')"
    by (simp add: load_document_def path_simps)
  moreover have "load_document mimic_env ''x.txt'' =
          Inl (Raise PyException ''Error loading x.txt: y.zip: Unsupported file type: .zip'')"
    by (simp add: load_document_def path_simps mimic_env_def)
  moreover have "lower (path_suffix ''notes.md'') \<notin> set supported_extensions"
    and "lower (path_suffix ''broken.txt'') \<in> set supported_extensions"
    and "lower (path_suffix ''x.txt: y.zip'') \<notin> set supported_extensions"
    and "lower (path_suffix ''x.txt'') \<in> set supported_extensions"
    by (simp_all add: path_simps supported_extensions_def)
  ultimately show ?thesis
    using load_notes_md load_broken_txt by simp
qed

text \<open>
  Claim C2, amended. For every file path whose lower-cased extension is not one of
  \<^verbatim>\<open>.pdf\<close>, \<^verbatim>\<open>.csv\<close>, \<^verbatim>\<open>.xlsx\<close>, \<^verbatim>\<open>.docx\<close>, \<^verbatim>\<open>.txt\<close>, \<^verbatim>\<open>load_document\<close> fails with
  a plain \<^verbatim>\<open>Exception\<close> whose message
  \<^verbatim>\<open>Error loading {name}: Unsupported file type: {extension}\<close> carries the offending
  extension. Every failure of \<^verbatim>\<open>load_document\<close>, an extraction failure on a supported
  type included, is a plain \<^verbatim>\<open>Exception\<close> with a message
  \<^verbatim>\<open>Error loading {name}: {cause}\<close>: the two kinds differ in the message text only.
\<close>

theorem C2_unsupported_extension:
  "(lower (path_suffix file_path) \<notin> set supported_extensions \<longrightarrow>
      load_document env file_path =
        Inl (Raise PyException (''Error loading '' @ path_name file_path
               @ '': Unsupported file type: '' @ lower (path_suffix file_path))))
   \<and> (\<forall>e. load_document env file_path = Inl e \<longrightarrow>
          class_of e = PyException
          \<and> (\<exists>cause. str_exn e = ''Error loading '' @ path_name file_path @ '': '' @ cause))"
  by (auto simp: load_document_def Let_def supported_extensions_def split: sum.splits)

theorem C2_unsupported_extension_witness:
  "lower (path_suffix ''notes.md'') \<notin> set supported_extensions
   \<and> load_document demo_env ''notes.md'' =
       Inl (Raise PyException ''Error loading notes.md: Unsupported file type: .md'')
   \<and> load_document demo_env ''broken.txt'' =
       Inl (Raise PyException ''Error loading broken.txt: cannot decode'')
   \<and> class_of (Raise PyException ''Error loading broken.txt: cannot decode'') = PyException"
proof -
  have u: "lower (path_suffix ''notes.md'') \<notin> set supported_extensions"
    by (simp add: path_simps supported_extensions_def)
  from C2_unsupported_extension [of "''notes.md''" demo_env]
       C2_unsupported_extension [of "''broken.txt''" demo_env]
  show ?thesis
    using u load_broken_txt by (simp add: path_simps)
qed

section \<open>Queries against an empty store\<close>

text \<open>
  Claim C3. When the store is initialized and its collection count is 0,
  \<^verbatim>\<open>generate_answer\<close> returns the text
  \<^verbatim>\<open>Knowledge base is empty. Please upload documents first.\<close> with an empty sources
  string; it returns a value, it does not raise.
\<close>

theorem C3_empty_store:
  assumes "vector_store st = Some vs" and "count env vs = Inr 0"
  shows "generate_answer env st query =
           Inr (''Knowledge base is empty. Please upload documents first.'', [])"
  using assms by (simp add: generate_answer_def)

theorem C3_empty_store_witness:
  "vector_store emptied = Some \<lparr>collection = []\<rparr>
   \<and> count demo_env \<lparr>collection = []\<rparr> = Inr 0
   \<and> generate_answer demo_env emptied ''what?'' =
       Inr (''Knowledge base is empty. Please upload documents first.'', [])"
proof -
  have st: "vector_store emptied = Some \<lparr>collection = []\<rparr>"
    by (simp add: emptied_def)
  have c: "count demo_env \<lparr>collection = []\<rparr> = Inr 0"
    by (simp add: count_def demo_env_def)
  from C3_empty_store [OF st c, of "''what?''"] st c show ?thesis
    by simp
qed

section \<open>Failure of the model call\<close>

text \<open>
  Claim C4. When context chunks were selected and the call of the language model on the
  prompt fails, \<^verbatim>\<open>generate_answer\<close> returns the text
  \<^verbatim>\<open>Error generating answer: {message}\<close> with an empty sources string: the failure is
  turned into a returned answer and does not leave the function as an exception.
\<close>

theorem C4_model_failure:
  assumes "vector_store st = Some vs" and "count env vs \<noteq> Inr 0"
    and "similarity_search_with_score env vs query 6 = Inr hits" and "hits \<noteq> []"
    and "invoke_llm st (prompt_of query (take 5 (relevant_docs_of hits))) = Inl e"
  shows "generate_answer env st query = Inr (''Error generating answer: '' @ str_exn e, [])"
proof -
  have "answer_from st query (take 5 (relevant_docs_of hits)) =
          (''Error generating answer: '' @ str_exn e, [])"
    using assms(5) by (simp add: answer_from_def prompt_of_def case_prod_unfold)
  with generate_answer_flow [OF assms(1-4)] show ?thesis by simp
qed

theorem C4_model_failure_witness:
  "vector_store outage = Some old_store
   \<and> count demo_env old_store \<noteq> Inr 0
   \<and> similarity_search_with_score demo_env old_store ''what?'' 6 = Inr six_hits
   \<and> six_hits \<noteq> []
   \<and> invoke_llm outage (prompt_of ''what?'' (take 5 (relevant_docs_of six_hits))) =
       Inl (Raise (OtherError ''APIConnectionError'') ''Connection error.'')
   \<and> generate_answer demo_env outage ''what?'' =
       Inr (''Error generating answer: Connection error.'', [])"
proof -
  have st: "vector_store outage = Some old_store"
    by (simp add: outage_def ready_def)
  have c: "count demo_env old_store \<noteq> Inr 0"
    by (simp add: count_def demo_env_def old_store_def)
  have s: "similarity_search_with_score demo_env old_store ''what?'' 6 = Inr six_hits"
    by (simp add: demo_env_def six_hits_def)
  have n: "six_hits \<noteq> []"
    by (simp add: six_hits_def)
  have f: "invoke_llm outage (prompt_of ''what?'' (take 5 (relevant_docs_of six_hits))) =
       Inl (Raise (OtherError ''APIConnectionError'') ''Connection error.'')"
    by (simp add: invoke_llm_def outage_def down_llm_def)
  from C4_model_failure [OF st c s n f] st c s n f show ?thesis
    by simp
qed

section \<open>Batch ingestion: failures stay in the progress stream\<close>

text \<open>
  Claim C5. Once the components are initialized and the collection is reset,
  \<^verbatim>\<open>process_documents\<close> never ends with an exception. After its three opening
  messages it yields one message per file, in order: the failure marker of a file that
  did not load, the success message of one that did, so a failure does not stop the
  files after it. When every file fails to load the stream ends with
  \<^verbatim>\<open>No documents loaded successfully\<close>, and when documents were loaded but the
  splitter returns no chunk it ends with \<^verbatim>\<open>Failed to create text chunks\<close>; in both
  cases the generator returns.
\<close>

theorem C5_ingestion_recovers:
  assumes "initialize_components env st = (st1, None)"
    and "vector_store st1 = Some vs" and "reset_collection env vs = Inr vs1"
  shows "raised (process_documents env st fps) = None
    \<and> take (3 + length fps) (emitted (process_documents env st fps)) =
        [Initializing, Clearing, Loading (length fps)] @ map (file_status env) fps
    \<and> ((\<forall>fp \<in> set fps. isl (load_document env fp)) \<longrightarrow>
         emitted (process_documents env st fps) =
           [Initializing, Clearing, Loading (length fps)] @ map (file_status env) fps
             @ [NoDocumentsLoaded])
    \<and> (loaded_documents env fps \<noteq> [] \<and>
        split_documents env the_splitter (loaded_documents env fps) = [] \<longrightarrow>
         emitted (process_documents env st fps) =
           [Initializing, Clearing, Loading (length fps)] @ map (file_status env) fps
             @ [TotalContent (sum_list (map (\<lambda>doc. length (page_content doc))
                                            (loaded_documents env fps))),
                Splitting, FailedToChunk])"
proof -
  note u = process_documents_unfold [OF assms, of fps]
  have "raised (process_documents env st fps) = None"
    unfolding u by (simp add: Let_def)
  moreover have "take (3 + length fps) (emitted (process_documents env st fps)) =
        [Initializing, Clearing, Loading (length fps)] @ map (file_status env) fps"
    unfolding u by (simp add: Let_def take_three_more del: take_Cons_numeral)
  moreover have "emitted (process_documents env st fps) =
           [Initializing, Clearing, Loading (length fps)] @ map (file_status env) fps
             @ [NoDocumentsLoaded]"
    if "\<forall>fp \<in> set fps. isl (load_document env fp)"
    unfolding u using isl_loaded_documents [OF that] by (simp add: Let_def)
  moreover have "emitted (process_documents env st fps) =
           [Initializing, Clearing, Loading (length fps)] @ map (file_status env) fps
             @ [TotalContent (sum_list (map (\<lambda>doc. length (page_content doc))
                                            (loaded_documents env fps))),
                Splitting, FailedToChunk]"
    if "loaded_documents env fps \<noteq> []"
      and "split_documents env the_splitter (loaded_documents env fps) = []"
    unfolding u using that by (simp add: Let_def)
  ultimately show ?thesis by blast
qed

theorem C5_ingestion_recovers_witness:
  "initialize_components demo_env fresh = (ready, None)
   \<and> vector_store ready = Some old_store
   \<and> reset_collection demo_env old_store = Inr \<lparr>collection = []\<rparr>
   \<and> raised (process_documents demo_env fresh [''a.txt'', ''broken.txt'', ''b.pdf'']) = None
   \<and> take 6 (emitted (process_documents demo_env fresh [''a.txt'', ''broken.txt'', ''b.pdf''])) =
       [Initializing, Clearing, Loading 3, Loaded ''a.txt'' 1,
        FailedToLoad ''broken.txt'' ''Error loading broken.txt: cannot decode'',
        Loaded ''b.pdf'' 2]
   \<and> isl (load_document demo_env ''broken.txt'')
   \<and> isl (load_document demo_env ''notes.md'')
   \<and> raised (process_documents demo_env fresh [''broken.txt'', ''notes.md'']) = None
   \<and> emitted (process_documents demo_env fresh [''broken.txt'', ''notes.md'']) =
       [Initializing, Clearing, Loading 2,
        FailedToLoad ''broken.txt'' ''Error loading broken.txt: cannot decode'',
        FailedToLoad ''notes.md'' ''Error loading notes.md: Unsupported file type: .md'',
        NoDocumentsLoaded]"
proof -
  have names: "path_name ''a.txt'' = ''a.txt''" "path_name ''broken.txt'' = ''broken.txt''"
    "path_name ''b.pdf'' = ''b.pdf''" "path_name ''notes.md'' = ''notes.md''"
    by (simp_all add: path_name_def)
  from C5_ingestion_recovers [OF init_fresh store_ready reset_old, of "[''a.txt'', ''broken.txt'', ''b.pdf'']"]
       C5_ingestion_recovers [OF init_fresh store_ready reset_old, of "[''broken.txt'', ''notes.md'']"]
  show ?thesis
    using init_fresh store_ready reset_old
    by (simp add: file_status_def load_a_txt load_broken_txt load_b_pdf load_notes_md names)
qed

section \<open>Source labels of an answer\<close>

text \<open>
  Claim C6. When the model call succeeds, the sources string lists one line
  \<^verbatim>\<open>- {label}\<close> per label, where the labels are those of the context chunks
  (\<^verbatim>\<open>{source} ({file_type})\<close> for a chunk with a non-empty file type, \<^verbatim>\<open>{source}\<close>
  otherwise, the source being \<^verbatim>\<open>Unknown\<close> when the metadata has none), without
  duplicates and in lexicographic order.
\<close>

theorem C6_source_labels:
  assumes "vector_store st = Some vs" and "count env vs \<noteq> Inr 0"
    and "similarity_search_with_score env vs query 6 = Inr hits" and "hits \<noteq> []"
    and "invoke_llm st (prompt_of query (take 5 (relevant_docs_of hits))) = Inr resp"
  shows "(let labels = sort (remdups (map source_label (take 5 (relevant_docs_of hits)))) in
          generate_answer env st query =
            Inr (strip (case resp of Message c \<Rightarrow> c | Other s \<Rightarrow> s),
                 join nl (map (\<lambda>l. ''- '' @ l) labels))
          \<and> sorted labels \<and> distinct labels
          \<and> set labels = source_label ` set (take 5 (relevant_docs_of hits)))"
proof -
  let ?ctx = "take 5 (relevant_docs_of hits)"
  let ?labels = "sort (remdups (map source_label ?ctx))"
  have "sorted_list_of_set (source_label ` set ?ctx) = ?labels"
    using sorted_list_of_set_sort_remdups [of "map source_label ?ctx"] by simp
  with answer_from_ok [OF assms(5)] generate_answer_flow [OF assms(1-4)]
  have "generate_answer env st query =
          Inr (strip (case resp of Message c \<Rightarrow> c | Other s \<Rightarrow> s),
               join nl (map (\<lambda>l. ''- '' @ l) ?labels))"
    by (simp only:)
  moreover have "sorted ?labels" and "distinct ?labels"
    and "set ?labels = source_label ` set ?ctx"
    by simp_all
  ultimately show ?thesis
    by (simp only: Let_def)
qed

theorem C6_source_labels_witness:
  "vector_store ready = Some old_store
   \<and> count two_env old_store \<noteq> Inr 0
   \<and> similarity_search_with_score two_env old_store ''what?'' 6 = Inr two_hits
   \<and> two_hits \<noteq> []
   \<and> invoke_llm ready (prompt_of ''what?'' (take 5 (relevant_docs_of two_hits))) =
       Inr (Message ''  The answer.  '')
   \<and> generate_answer two_env ready ''what?'' =
       Inr (''The answer.'', ''- memo'' @ nl @ ''- report.pdf (.pdf)'')"
proof -
  have st: "vector_store ready = Some old_store"
    by (simp add: ready_def)
  have c: "count two_env old_store \<noteq> Inr 0"
    by (simp add: count_def two_env_def demo_env_def old_store_def)
  have s: "similarity_search_with_score two_env old_store ''what?'' 6 = Inr two_hits"
    by (simp add: two_env_def demo_env_def two_hits_def)
  have n: "two_hits \<noteq> []"
    by (simp add: two_hits_def)
  have f: "invoke_llm ready (prompt_of ''what?'' (take 5 (relevant_docs_of two_hits))) =
       Inr (Message ''  The answer.  '')"
    by (simp add: invoke_llm_def ready_def echo_llm_def)
  have ctx: "map source_label (take 5 (relevant_docs_of two_hits)) =
       [''report.pdf (.pdf)'', ''memo'', ''report.pdf (.pdf)'']"
    by (simp add: relevant_docs_of_def two_hits_def mk_doc_def source_label_def dict_get_def)
  have srt: "sort (remdups [''report.pdf (.pdf)'', ''memo'', ''report.pdf (.pdf)''])
       = [''memo'', ''report.pdf (.pdf)'']"
    by code_simp
  have stp: "strip ''  The answer.  '' = ''The answer.''"
    by (simp add: strip_def py_isspace_def)
  from C6_source_labels [OF st c s n f] st c s n f show ?thesis
    by (simp add: ctx srt stp Let_def)
qed

section \<open>Loading: provenance metadata\<close>

text \<open>
  Claim C7. Every document that \<^verbatim>\<open>load_document\<close> returns has the file's name under
  the metadata key \<^verbatim>\<open>source\<close> and the file's lower-cased extension under
  \<^verbatim>\<open>file_type\<close>, whatever the loader had put there.
\<close>

theorem C7_stamped:
  assumes "load_document env file_path = Inr docs"
  shows "\<forall>d \<in> set docs. metadata d ''source'' = Some (path_name file_path)
                       \<and> metadata d ''file_type'' = Some (lower (path_suffix file_path))"
  using assms
  by (auto simp: load_document_def Let_def stamp_def split: sum.splits if_splits)

theorem C7_stamped_witness:
  "load_document demo_env ''uploads/Report.PDF'' =
     Inr [\<lparr>page_content = ''page one'',
           metadata = [''source'' \<mapsto> ''Report.PDF'', ''page'' \<mapsto> ''0'', ''file_type'' \<mapsto> ''.pdf'']\<rparr>,
          \<lparr>page_content = ''page two'',
           metadata = [''source'' \<mapsto> ''Report.PDF'', ''file_type'' \<mapsto> ''.pdf'']\<rparr>]
   \<and> path_name ''uploads/Report.PDF'' = ''Report.PDF''
   \<and> lower (path_suffix ''uploads/Report.PDF'') = ''.pdf''
   \<and> list_all (\<lambda>d. metadata d ''source'' = Some ''Report.PDF'' \<and> metadata d ''file_type'' = Some ''.pdf'')
        [\<lparr>page_content = ''page one'',
           metadata = [''source'' \<mapsto> ''Report.PDF'', ''page'' \<mapsto> ''0'', ''file_type'' \<mapsto> ''.pdf'']\<rparr>,
          \<lparr>page_content = ''page two'',
           metadata = [''source'' \<mapsto> ''Report.PDF'', ''file_type'' \<mapsto> ''.pdf'']\<rparr>]"
proof -
  have nm: "path_name ''uploads/Report.PDF'' = ''Report.PDF''"
    by (simp add: path_name_def)
  have ext: "lower (path_suffix ''uploads/Report.PDF'') = ''.pdf''"
    by (simp add: lower_def lower_char_def path_suffix_def path_name_def rfind_def)
  have ld: "load_document demo_env ''uploads/Report.PDF'' =
     Inr [\<lparr>page_content = ''page one'',
           metadata = [''source'' \<mapsto> ''Report.PDF'', ''page'' \<mapsto> ''0'', ''file_type'' \<mapsto> ''.pdf'']\<rparr>,
          \<lparr>page_content = ''page two'',
           metadata = [''source'' \<mapsto> ''Report.PDF'', ''file_type'' \<mapsto> ''.pdf'']\<rparr>]"
    unfolding load_document_def Let_def nm ext
    by (auto simp: demo_env_def demo_load_def stamp_def fun_eq_iff)
  from C7_stamped [OF ld] ld nm ext show ?thesis
    by (simp add: list_all_iff)
qed

section \<open>Queries against an uninitialized store\<close>

text \<open>
  Claim C8. \<^verbatim>\<open>generate_answer\<close> raises exactly when the store is uninitialized, and
  then a \<^verbatim>\<open>RuntimeError\<close> with the message
  \<^verbatim>\<open>Knowledge base not initialized. Upload documents first.\<close>; with an initialized
  store every failure ends in a returned answer text. The query handler turns the
  error into the status 400 with that message, and answers every other non-blank query
  against an initialized store with a response body.
\<close>

theorem C8_not_initialized:
  "(generate_answer env st query =
      Inl (Raise RuntimeError ''Knowledge base not initialized. Upload documents first.'')
    \<longleftrightarrow> vector_store st = None)
   \<and> (vector_store st \<noteq> None \<longrightarrow> \<not> isl (generate_answer env st query))
   \<and> (strip query \<noteq> [] \<longrightarrow>
        (if vector_store st = None
         then query_documents env st query =
                Inl (HTTPException 400 ''Knowledge base not initialized. Upload documents first.'')
         else \<not> isl (query_documents env st query)))"
proof (cases "vector_store st")
  case None
  have "strip query \<noteq> [] \<Longrightarrow> query \<noteq> []"
    by (auto simp: strip_def)
  with None generate_answer_uninitialized [OF None, of env query] show ?thesis
    by (auto simp: query_documents_def)
next
  case (Some vs)
  from generate_answer_initialized [OF Some, of env query]
  obtain a s where ga: "generate_answer env st query = Inr (a, s)"
    by blast
  have "strip query \<noteq> [] \<Longrightarrow> query \<noteq> []"
    by (auto simp: strip_def)
  with Some ga show ?thesis
    by (auto simp: query_documents_def)
qed

theorem C8_not_initialized_witness:
  "vector_store fresh = None
   \<and> strip ''hi'' \<noteq> []
   \<and> generate_answer demo_env fresh ''hi'' =
       Inl (Raise RuntimeError ''Knowledge base not initialized. Upload documents first.'')
   \<and> query_documents demo_env fresh ''hi'' =
       Inl (HTTPException 400 ''Knowledge base not initialized. Upload documents first.'')
   \<and> vector_store ready \<noteq> None
   \<and> generate_answer search_down_env ready ''hi'' =
       Inr (''Error searching knowledge base: index unavailable'', [])
   \<and> query_documents search_down_env ready ''hi'' =
       Inr \<lparr>answer = ''Error searching knowledge base: index unavailable'', sources = [],
            confidence = Some ''low''\<rparr>"
proof -
  have s: "strip ''hi'' \<noteq> []"
    by (simp add: strip_def py_isspace_def)
  have f: "vector_store fresh = None" and r: "vector_store ready \<noteq> None"
    by (simp_all add: fresh_def ready_def)
  have g: "generate_answer search_down_env ready ''hi'' =
       Inr (''Error searching knowledge base: index unavailable'', [])"
    by (simp add: generate_answer_def ready_def search_down_env_def demo_env_def count_def old_store_def)
  from C8_not_initialized [of demo_env fresh "''hi''"]
       C8_not_initialized [of search_down_env ready "''hi''"]
  show ?thesis
    using s f r g by (simp add: query_documents_def)
qed

section \<open>Batch ingestion: the collection is reset first\<close>

text \<open>
  Claim C10. \<^verbatim>\<open>process_documents\<close> resets the collection before it loads any file:
  what the store holds when the call ends are chunks of this call only (some first part
  of them, all of them when storing succeeds), never a chunk of an earlier call. When
  every file of the batch fails to load, the call returns and leaves the collection
  empty, with count 0, whatever it held before.
\<close>

theorem C10_reset_before_load:
  assumes "initialize_components env st = (st1, None)"
    and "vector_store st1 = Some vs" and "reset_collection env vs = Inr vs1"
  shows "collection vs1 = []
    \<and> (\<exists>vs' n. vector_store (final (process_documents env st fps)) = Some vs'
          \<and> collection vs' =
              take n (zip (map (uuid4 env)
                             [0..<length (split_documents env the_splitter (loaded_documents env fps))])
                          (split_documents env the_splitter (loaded_documents env fps))))
    \<and> ((\<forall>fp \<in> set fps. isl (load_document env fp)) \<longrightarrow>
         raised (process_documents env st fps) = None
         \<and> vector_store (final (process_documents env st fps)) = Some vs1
         \<and> (count_fault env = None \<longrightarrow> count env vs1 = Inr 0))"
proof -
  note u = process_documents_unfold [OF assms, of fps]
  let ?chunks = "split_documents env the_splitter (loaded_documents env fps)"
  let ?ids = "map (uuid4 env) [0..<length ?chunks]"
  have empty: "collection vs1 = []"
    using assms(3) by (auto simp: reset_collection_def split: option.splits)
  have added: "\<exists>n. collection (fst (add_documents env vs1 ?chunks ?ids)) = take n (zip ?ids ?chunks)"
  proof (cases "add_fault env")
    case None
    then have "collection (fst (add_documents env vs1 ?chunks ?ids)) =
                 take (length ?chunks) (zip ?ids ?chunks)"
      by (simp add: add_documents_def empty)
    then show ?thesis ..
  next
    case (Some f)
    then have "collection (fst (add_documents env vs1 ?chunks ?ids)) =
                 take (fst f) (zip ?ids ?chunks)"
      by (simp add: add_documents_def empty case_prod_unfold)
    then show ?thesis ..
  qed
  have "\<exists>vs' n. vector_store (final (process_documents env st fps)) = Some vs'
          \<and> collection vs' = take n (zip ?ids ?chunks)"
  proof (cases "loaded_documents env fps = [] \<or> ?chunks = []")
    case True
    then have "vector_store (final (process_documents env st fps)) = Some vs1"
      unfolding u by (auto simp: Let_def)
    moreover have "collection vs1 = take 0 (zip ?ids ?chunks)"
      using empty by simp
    ultimately show ?thesis by blast
  next
    case False
    then have "vector_store (final (process_documents env st fps)) =
                 Some (fst (add_documents env vs1 ?chunks ?ids))"
      unfolding u by (simp add: Let_def)
    with added show ?thesis by blast
  qed
  moreover have "raised (process_documents env st fps) = None
         \<and> vector_store (final (process_documents env st fps)) = Some vs1
         \<and> (count_fault env = None \<longrightarrow> count env vs1 = Inr 0)"
    if "\<forall>fp \<in> set fps. isl (load_document env fp)"
    unfolding u using isl_loaded_documents [OF that] empty
    by (simp add: Let_def count_def)
  ultimately show ?thesis
    using empty by blast
qed

theorem C10_reset_before_load_witness:
  "initialize_components demo_env ready = (ready, None)
   \<and> vector_store ready = Some old_store
   \<and> collection old_store = [(''id-old'', mk_doc ''old chunk'' ''old.txt'' ''.txt'')]
   \<and> reset_collection demo_env old_store = Inr \<lparr>collection = []\<rparr>
   \<and> isl (load_document demo_env ''broken.txt'')
   \<and> isl (load_document demo_env ''notes.md'')
   \<and> raised (process_documents demo_env ready [''broken.txt'', ''notes.md'']) = None
   \<and> vector_store (final (process_documents demo_env ready [''broken.txt'', ''notes.md''])) =
       Some \<lparr>collection = []\<rparr>
   \<and> count demo_env \<lparr>collection = []\<rparr> = Inr 0"
proof -
  have cf: "count_fault demo_env = None"
    by (simp add: demo_env_def)
  from C10_reset_before_load [OF init_ready store_ready reset_old, of "[''broken.txt'', ''notes.md'']"]
  show ?thesis
    using init_ready store_ready reset_old cf
    by (simp add: load_broken_txt load_notes_md old_store_def)
qed

end
